theory Spec2Isabelle
  imports Main
begin

section \<open>JavaScript values\<close>

text \<open>
  The values that reach the functions modelled below. Only the result of \<open>typeof\<close> and
  the truthiness of a value are ever inspected by the code, so objects and functions are
  kept as opaque references. Strings are lists of characters; the code units the source
  tests for (backslash, quote, codes below 0x20) all lie in the character type.
\<close>

datatype jsval =
    JUndefined
  | JNull
  | JBool bool
  | JNum int
  | JStr string
  | JRegExp string
  | JObj nat
  | JFun nat

fun typeof :: "jsval \<Rightarrow> string" where
  "typeof JUndefined = ''undefined''"
| "typeof JNull = ''object''"
| "typeof (JBool b) = ''boolean''"
| "typeof (JNum n) = ''number''"
| "typeof (JStr s) = ''string''"
| "typeof (JRegExp r) = ''object''"
| "typeof (JObj a) = ''object''"
| "typeof (JFun a) = ''function''"

fun truthy :: "jsval \<Rightarrow> bool" where
  "truthy JUndefined = False"
| "truthy JNull = False"
| "truthy (JBool b) = b"
| "truthy (JNum n) = (n \<noteq> 0)"
| "truthy (JStr s) = (s \<noteq> [])"
| "truthy (JRegExp r) = True"
| "truthy (JObj a) = True"
| "truthy (JFun a) = True"

text \<open>JavaScript's \<open>a && b\<close>: the left operand when it is falsy, the right one otherwise.\<close>

definition js_and :: "jsval \<Rightarrow> jsval \<Rightarrow> jsval" where
  "js_and a b = (if truthy a then b else a)"

section \<open>Evaldown: extension handling (lib/Evaldown.js)\<close>

definition DEFAULT_SOURCE_EXTENSION :: string where
  "DEFAULT_SOURCE_EXTENSION = ''.md''"

text \<open>The regular expression literal of \<open>isValidExtension\<close>, kept as its source text.\<close>

definition extensionPattern :: string where
  "extensionPattern = [CHR ''^'', CHR 0x5C] @ ''.([a-z]'' @ [CHR 0x5C] @ ''.)*[a-z]''"

text \<open>
  \<open>return typeof ext === "string" && /^\.([a-z]\.)*[a-z]/;\<close>
  The right operand is the regular expression object itself; it is never applied to \<open>ext\<close>.
\<close>

definition isValidExtension :: "jsval \<Rightarrow> jsval" where
  "isValidExtension ext = js_and (JBool (typeof ext = ''string'')) (JRegExp extensionPattern)"

text \<open>
  The constructor's use of the helper:
  \<open>isValidExtension(sourceExtension) ? sourceExtension : DEFAULT_SOURCE_EXTENSION\<close>.
\<close>

definition chooseExtension :: "jsval \<Rightarrow> jsval \<Rightarrow> jsval" where
  "chooseExtension ext dflt = (if truthy (isValidExtension ext) then ext else dflt)"

section \<open>InspectedConsole (lib/InspectedConsole.js)\<close>

subsection \<open>The output pen of the inspection facility\<close>

text \<open>
  Lines are not recorded as plain strings but as pens of the external pretty-printer:
  sequences of styled text and line breaks. A pen is serialised in a format only when
  the console itself is serialised. \<open>clone()\<close> gives a pen of the same kind whose
  buffer is empty; \<open>append\<close> adds the content of another pen at the end; \<open>nl()\<close>
  adds one line break.
\<close>

datatype chunk = Styled string string | NL

type_synonym pen = "chunk list"

definition pen_clone :: "pen \<Rightarrow> pen" where
  "pen_clone p = []"

definition pen_style :: "string \<Rightarrow> string \<Rightarrow> pen \<Rightarrow> pen" where
  "pen_style st str p = p @ [Styled st str]"

definition pen_append :: "pen \<Rightarrow> pen \<Rightarrow> pen" where
  "pen_append line p = p @ line"

definition pen_nl :: "pen \<Rightarrow> pen" where
  "pen_nl p = p @ [NL]"

text \<open>The text format of a pen drops the styles and writes a line feed for a break.\<close>

fun chunk_text :: "chunk \<Rightarrow> string" where
  "chunk_text (Styled st str) = str"
| "chunk_text NL = [CHR 0x0A]"

definition pen_text :: "pen \<Rightarrow> string" where
  "pen_text p = concat (map chunk_text p)"

subsection \<open>stringToOutput\<close>

definition hexDigit :: "nat \<Rightarrow> char" where
  "hexDigit d = ''0123456789abcdef'' ! d"

text \<open>\<open>Number.prototype.toString(16)\<close> on a non-negative integer.\<close>

fun toString16 :: "nat \<Rightarrow> string" where
  "toString16 n = (if n < 16 then [hexDigit n] else toString16 (n div 16) @ [hexDigit (n mod 16)])"

declare toString16.simps [simp del]

text \<open>The character class of the replacement: backslash, the codes 0x00 to 0x1f, single quote.\<close>

definition matchesEscapeClass :: "char \<Rightarrow> bool" where
  "matchesEscapeClass c = (c = CHR 0x5C \<or> (of_char c :: nat) \<le> 0x1f \<or> c = CHR 0x27)"

text \<open>The replacer callback, branch by branch in the order of the source.\<close>

definition replacer :: "char \<Rightarrow> string" where
  "replacer c =
     (if c = CHR 0x0A then [CHR 0x5C, CHR ''n'']
      else if c = CHR 0x0D then [CHR 0x5C, CHR ''r'']
      else if c = CHR 0x27 then [CHR 0x5C, CHR 0x27]
      else if c = CHR 0x5C then [CHR 0x5C, CHR 0x5C]
      else if c = CHR 0x09 then [CHR 0x5C, CHR ''t'']
      else if c = CHR 0x08 then [CHR 0x5C, CHR ''b'']
      else if c = CHR 0x0C then [CHR 0x5C, CHR ''f'']
      else (let charCode = (of_char c :: nat)
            in [CHR 0x5C, CHR ''x''] @ (if charCode < 16 then ''0'' else []) @ toString16 charCode))"

text \<open>The global replacement of every character of the class by the replacer's result.\<close>

definition escapeContent :: "string \<Rightarrow> string" where
  "escapeContent content = concat (map (\<lambda>c. if matchesEscapeClass c then replacer c else [c]) content)"

definition stringToOutput :: "string \<Rightarrow> pen \<Rightarrow> bool \<Rightarrow> pen" where
  "stringToOutput content output isError =
     (let output = pen_clone output;
          stringStyle = (if isError then ''error'' else ''jsString'');
          output = pen_style stringStyle [CHR 0x27] output;
          output = pen_style stringStyle (escapeContent content) output;
          output = pen_style stringStyle [CHR 0x27] output
      in output)"

subsection \<open>The console object\<close>

text \<open>
  The inspection facility reached through \<open>markdown.getExpect()\<close> is external: its
  \<open>inspect(value, depth)\<close> and its base \<open>output\<close> pen are fields of the collaborator.
  The console's fields \<open>[symbols.markdown]\<close> (read only through \<open>getExpect()\<close>) and
  \<open>[symbols.output]\<close> are \<open>con_expect\<close> and \<open>con_output\<close>.
\<close>

record expect_facility =
  inspect :: "jsval \<Rightarrow> nat \<Rightarrow> pen"
  base_output :: pen

record inspected_console =
  con_expect :: expect_facility
  con_output :: "pen list"

definition newInspectedConsole :: "expect_facility \<Rightarrow> inspected_console" where
  "newInspectedConsole e = \<lparr> con_expect = e, con_output = [] \<rparr>"

definition isEmpty :: "inspected_console \<Rightarrow> bool" where
  "isEmpty con = (length (con_output con) = 0)"

text \<open>
  The method \<open>[symbols.line](out, value)\<close>: a value that is not a string goes through
  \<open>inspect(value, 6)\<close>, a string through \<open>stringToOutput\<close>; the result is pushed.
\<close>

definition line :: "string \<Rightarrow> jsval \<Rightarrow> inspected_console \<Rightarrow> inspected_console" where
  "line out v con =
     (let v' = (case v of
                  JStr s \<Rightarrow> stringToOutput s (base_output (con_expect con)) (out = ''stderr'')
                | _ \<Rightarrow> inspect (con_expect con) v 6)
      in con\<lparr> con_output := con_output con @ [v'] \<rparr>)"

definition reset :: "inspected_console \<Rightarrow> inspected_console" where
  "reset con = con\<lparr> con_output := [] \<rparr>"

text \<open>
  \<open>makeBoundConsoleMethod(out, con)\<close> returns \<open>function(first, ...rest)\<close>: the call's
  argument list binds \<open>first\<close> to its head, or to \<open>undefined\<close> when the call has no
  argument, and \<open>rest\<close> to the remaining arguments.
\<close>

definition makeBoundConsoleMethod :: "string \<Rightarrow> jsval list \<Rightarrow> inspected_console \<Rightarrow> inspected_console" where
  "makeBoundConsoleMethod out args con =
     (let first = (case args of [] \<Rightarrow> JUndefined | a # _ \<Rightarrow> a);
          rest = tl args
      in if typeof first = ''string'' then line out first con
         else fold (line out) (first # rest) con)"

definition console_log :: "jsval list \<Rightarrow> inspected_console \<Rightarrow> inspected_console" where
  "console_log = makeBoundConsoleMethod ''stdout''"

definition console_info :: "jsval list \<Rightarrow> inspected_console \<Rightarrow> inspected_console" where
  "console_info = makeBoundConsoleMethod ''stdout''"

definition console_warn :: "jsval list \<Rightarrow> inspected_console \<Rightarrow> inspected_console" where
  "console_warn = makeBoundConsoleMethod ''stderr''"

definition console_error :: "jsval list \<Rightarrow> inspected_console \<Rightarrow> inspected_console" where
  "console_error = makeBoundConsoleMethod ''stderr''"

text \<open>
  The method \<open>[symbols.toString](format)\<close>; the serialisation of the assembled pen in
  the requested format, \<open>output.toString(format)\<close>, is the parameter \<open>ser\<close>.
\<close>

definition console_toString :: "(pen \<Rightarrow> string) \<Rightarrow> inspected_console \<Rightarrow> string" where
  "console_toString ser con =
     (let lines = con_output con
      in if length lines = 0 then []
         else (let out0 = pen_clone (base_output (con_expect con));
                   out1 = pen_append (hd lines) out0;
                   remainingLines = tl lines;
                   out2 = fold (\<lambda>l p. pen_append l (pen_nl p)) remainingLines out1
               in ser out2))"

text \<open>Joining by single line feeds, as the specification words the serialisation.\<close>

fun joinLines :: "'a list \<Rightarrow> 'a list list \<Rightarrow> 'a list" where
  "joinLines sep [] = []"
| "joinLines sep [l] = l"
| "joinLines sep (l # m # ls) = l @ sep @ joinLines sep (m # ls)"

text \<open>A small inspection facility for the concrete examples: it prints the depth it was given and the type of the value.\<close>

definition exampleExpect :: expect_facility where
  "exampleExpect = \<lparr> inspect = (\<lambda>v d. [Styled ''depth'' (replicate d (CHR ''*'')), Styled ''type'' (typeof v)]), base_output = [] \<rparr>"

section \<open>Evaldown: processing a batch of files (lib/Evaldown.js)\<close>

text \<open>
  Modelled from the spec: \<open>lib/Stats.js\<close> is not among the sources. The specification
  only says that a file's failure is recorded in the returned Stats; the model keeps one
  entry for each call of \<open>addSuccess(file)\<close> or \<open>addError(file, e)\<close>, in the order
  of the calls.
\<close>

datatype 'e outcome = Succeeded | Failed 'e

type_synonym 'e stats = "(string \<times> 'e outcome) list"

definition newStats :: "'e stats" where
  "newStats = []"

definition addSuccess :: "string \<Rightarrow> 'e stats \<Rightarrow> 'e stats" where
  "addSuccess file st = st @ [(file, Succeeded)]"

definition addError :: "string \<Rightarrow> 'e \<Rightarrow> 'e stats \<Rightarrow> 'e stats" where
  "addError file e st = st @ [(file, Failed e)]"

text \<open>
  \<open>processFile\<close> reads, evaluates and writes through the file system and the evaluation
  engine: it is a parameter here, any operation on the outside world \<open>'w\<close> that either
  completes or throws an \<open>'e\<close>. The loop of \<open>processFiles\<close>:
  \<open>for (const file of markdownFiles) { try { await this.processFile(file);
  stats.addSuccess(file); } catch (e) { stats.addError(file, e); debug(...); } }\<close>.
  The \<open>debug\<close> calls only log.
\<close>

fun processFilesLoop ::
  "(string \<Rightarrow> 'w \<Rightarrow> ('e + unit) \<times> 'w) \<Rightarrow> string list \<Rightarrow> 'e stats \<Rightarrow> 'w \<Rightarrow> 'e stats \<times> 'w" where
  "processFilesLoop processFile [] st w = (st, w)"
| "processFilesLoop processFile (file # files) st w =
     (case processFile file w of
        (Inr u, w') \<Rightarrow> processFilesLoop processFile files (addSuccess file st) w'
      | (Inl e, w') \<Rightarrow> processFilesLoop processFile files (addError file e st) w')"

text \<open>
  \<open>processFiles\<close>: the file names come from the external glob, which may itself reject;
  then the loop runs over them from a fresh Stats, and the Stats are returned.
\<close>

definition processFiles ::
  "('w \<Rightarrow> ('e + string list) \<times> 'w) \<Rightarrow> (string \<Rightarrow> 'w \<Rightarrow> ('e + unit) \<times> 'w) \<Rightarrow> 'w \<Rightarrow> ('e + 'e stats) \<times> 'w" where
  "processFiles glob processFile w =
     (case glob w of
        (Inl e, w') \<Rightarrow> (Inl e, w')
      | (Inr markdownFiles, w') \<Rightarrow>
          (case processFilesLoop processFile markdownFiles newStats w' of
             (stats, w'') \<Rightarrow> (Inr stats, w'')))"

text \<open>
  What the claim expects of a batch: every file is processed in turn, in the world its
  predecessors left behind, whether they failed or not.
\<close>

definition worldAfter :: "(string \<Rightarrow> 'w \<Rightarrow> ('e + unit) \<times> 'w) \<Rightarrow> string list \<Rightarrow> 'w \<Rightarrow> 'w" where
  "worldAfter processFile files w = fold (\<lambda>file w. snd (processFile file w)) files w"

definition outcomeOf :: "'e + unit \<Rightarrow> 'e outcome" where
  "outcomeOf r = (case r of Inl e \<Rightarrow> Failed e | Inr u \<Rightarrow> Succeeded)"

text \<open>An example batch: the world counts the calls, and the file named \<open>bad.md\<close> fails.\<close>

definition exampleProcessFile :: "string \<Rightarrow> nat \<Rightarrow> (string + unit) \<times> nat" where
  "exampleProcessFile file w = (if file = ''bad.md'' then Inl ''unreadable'' else Inr (), Suc w)"

definition exampleGlob :: "nat \<Rightarrow> (string + string list) \<times> nat" where
  "exampleGlob w = (Inr [''a.md'', ''bad.md'', ''c.md''], w)"

section \<open>Blocks and flags\<close>

text \<open>
  A flag value is a boolean or a string; a block's flags are a mapping from names to
  values, empty for a block built without flags. \<open>flags.evaluate\<close> being truthy and
  \<open>flags.hide === true\<close> are the two tests made on flags below.
\<close>

datatype flagval = FBool bool | FStr string

type_synonym flagmap = "string \<rightharpoonup> flagval"

fun flagTruthy :: "flagval option \<Rightarrow> bool" where
  "flagTruthy None = False"
| "flagTruthy (Some (FBool b)) = b"
| "flagTruthy (Some (FStr s)) = (s \<noteq> [])"

datatype output_kind = KResult | KConsole | KError

record block_output =
  kind :: output_kind
  text_of :: string

record block =
  lang :: string
  flags :: flagmap
  index :: nat
  code :: string
  block_output :: "block_output option"
  transpiled :: "string option"

definition isExecutable :: "block \<Rightarrow> bool" where
  "isExecutable b = (lang b = ''javascript'' \<or> lang b = ''typescript'')"

definition isHidden :: "block \<Rightarrow> bool" where
  "isHidden b = (flags b ''hide'' = Some (FBool True))"

section \<open>Snippets (lib/md/Snippets.js)\<close>

text \<open>
  Modelled from the spec: \<open>lib/md/Snippets.js\<close> and \<open>lib/errors.js\<close> are not among the
  sources; only the tests of Snippets are. The operations follow sections 3, 4.3, 4.4 and 7
  of the specification. The texts of the error messages, the rejection of a run over an
  unpaired output block with a FileEvaluationError, and the two TypeScript rejections
  carrying their own message (not the aggregate, whose message is empty) are those of the
  tests. Whether the TypeScript configuration is checked before any block runs or when the
  TypeScript block is reached is not told by the tests, which evaluate a TypeScript block
  on its own; the model follows the per-block procedure of section 4.4.
\<close>

datatype js_error = Error string

fun message :: "js_error \<Rightarrow> string" where
  "message (Error m) = m"

text \<open>A SnippetProcessingError wraps the original error and has its message.\<close>

datatype snippet_processing_error = SnippetProcessingError js_error

fun original :: "snippet_processing_error \<Rightarrow> js_error" where
  "original (SnippetProcessingError e) = e"

definition spe_message :: "snippet_processing_error \<Rightarrow> string" where
  "spe_message e = message (original e)"

text \<open>The mapping from block position to error, in the order the errors are found.\<close>

type_synonym error_map = "(nat \<times> snippet_processing_error) list"

datatype rejection = Plain js_error | FileEvaluationError error_map

fun rejection_message :: "rejection \<Rightarrow> string" where
  "rejection_message (Plain e) = message e"
| "rejection_message (FileEvaluationError errs) = []"

definition noMatchingCodeBlock :: js_error where
  "noMatchingCodeBlock = Error ''no matching code block for output snippet''"

definition hiddenCodeBlock :: js_error where
  "hiddenCodeBlock = Error ''cannot match hidden code block to output snippet''"

definition evaluatedTwice :: js_error where
  "evaluatedTwice = Error ''the same snippets were evaluated twice''"

definition tsconfigMissing :: js_error where
  "tsconfigMissing = Error ''tsconfig must be specified with TypeScript snippets''"

definition transpileFnConflict :: js_error where
  "transpileFnConflict = Error ''transpileFn cannot be specified with TypeScript snippets''"

record snippets =
  items :: "block list"
  evaluated :: bool

definition newSnippets :: "block list \<Rightarrow> snippets" where
  "newSnippets bs = \<lparr> items = bs, evaluated = False \<rparr>"

text \<open>\<open>get(index)\<close> fails with an out-of-range condition when there is no such block.\<close>

definition get :: "snippets \<Rightarrow> nat \<Rightarrow> block option" where
  "get s i = (if i < length (items s) then Some (items s ! i) else None)"

subsection \<open>Pairing of output blocks\<close>

text \<open>
  An output block must be immediately preceded by an executable block, and that block
  must not be hidden. \<open>prev\<close> is the block just before the output block, if any.
\<close>

definition pairingError :: "block option \<Rightarrow> js_error option" where
  "pairingError prev =
     (case prev of
        None \<Rightarrow> Some noMatchingCodeBlock
      | Some p \<Rightarrow>
          if \<not> isExecutable p then Some noMatchingCodeBlock
          else if isHidden p then Some hiddenCodeBlock
          else None)"

text \<open>\<open>check()\<close>: every violation is wrapped and returned under the block's position; nothing is thrown.\<close>

fun checkLoop :: "nat \<Rightarrow> block option \<Rightarrow> block list \<Rightarrow> error_map" where
  "checkLoop i prev [] = []"
| "checkLoop i prev (b # bs) =
     (if lang b = ''output'' then
        (case pairingError prev of
           Some e \<Rightarrow> (i, SnippetProcessingError e) # checkLoop (Suc i) (Some b) bs
         | None \<Rightarrow> checkLoop (Suc i) (Some b) bs)
      else checkLoop (Suc i) (Some b) bs)"

definition check :: "snippets \<Rightarrow> error_map" where
  "check s = checkLoop 0 None (items s)"

text \<open>
  \<open>getTests()\<close>: each executable block becomes a test record; an output block right
  after it gives the record its output; an output block that cannot be paired makes the
  operation throw.
\<close>

record test_record =
  test_code :: string
  test_flags :: flagmap
  test_output :: "string option"

fun getTestsLoop :: "block option \<Rightarrow> test_record list \<Rightarrow> block list \<Rightarrow> js_error + test_record list" where
  "getTestsLoop prev tests [] = Inr tests"
| "getTestsLoop prev tests (b # bs) =
     (if isExecutable b then
        getTestsLoop (Some b) (tests @ [\<lparr> test_code = code b, test_flags = flags b, test_output = None \<rparr>]) bs
      else if lang b = ''output'' then
        (case pairingError prev of
           Some e \<Rightarrow> Inl e
         | None \<Rightarrow> getTestsLoop (Some b) (butlast tests @ [(last tests)\<lparr> test_output := Some (code b) \<rparr>]) bs)
      else getTestsLoop (Some b) tests bs)"

definition getTests :: "snippets \<Rightarrow> js_error + test_record list" where
  "getTests s = getTestsLoop None [] (items s)"

subsection \<open>Evaluation\<close>

text \<open>
  The options of \<open>evaluate()\<close> that the collection itself reads. The inspection
  collaborator, the working directory and the file globals only reach the engine that
  executes code, which is external: \<open>exec\<close> runs one block's code in the shared scope
  \<open>'w\<close> under a capture mode and either returns the captured output (none for
  \<open>undefined\<close>) or the text of what was thrown; \<open>execPreamble\<close> runs the preamble;
  \<open>tsTranspile\<close> compiles TypeScript under a tsconfig; \<open>cleanStackTrace\<close> rewrites the
  stack frames of an error text.
\<close>

datatype capture = CaptureReturn | CaptureConsole | CaptureNowrap

record options =
  capture :: "capture option"
  transpileFn :: "(string \<Rightarrow> string) option"
  tsconfig :: "string option"
  preamble :: "string option"

definition noOptions :: options where
  "noOptions = \<lparr> capture = None, transpileFn = None, tsconfig = None, preamble = None \<rparr>"

datatype exec_result = Returned "block_output option" | Threw string

record 'w engine =
  exec :: "capture \<Rightarrow> flagmap \<Rightarrow> string \<Rightarrow> 'w \<Rightarrow> exec_result \<times> 'w"
  execPreamble :: "string \<Rightarrow> 'w \<Rightarrow> 'w"
  tsTranspile :: "string \<Rightarrow> string \<Rightarrow> string"
  cleanStackTrace :: "string \<Rightarrow> string"

text \<open>The capture mode of a block: its own flag if it has one, else the run's, else return capture.\<close>

definition captureFor :: "options \<Rightarrow> block \<Rightarrow> capture" where
  "captureFor opts b =
     (if flagTruthy (flags b ''return'') then CaptureReturn
      else if flagTruthy (flags b ''console'') then CaptureConsole
      else if flagTruthy (flags b ''nowrap'') then CaptureNowrap
      else (case capture opts of Some c \<Rightarrow> c | None \<Rightarrow> CaptureReturn))"

text \<open>
  The text that is executed for a block and what is kept as \<open>transpiled\<close>: TypeScript
  goes through the project's compiler, other code through \<open>transpileFn\<close> when there is one.
\<close>

definition transpileBlock :: "'w engine \<Rightarrow> options \<Rightarrow> block \<Rightarrow> string option" where
  "transpileBlock eng opts b =
     (if lang b = ''typescript'' then
        (case tsconfig opts of Some cfg \<Rightarrow> Some (tsTranspile eng cfg (code b)) | None \<Rightarrow> None)
      else (case transpileFn opts of Some f \<Rightarrow> Some (f (code b)) | None \<Rightarrow> None))"

text \<open>
  The blocks are run in document order, each by the per-block procedure of section 4.4.
  A block that is not executable or whose \<open>evaluate\<close> flag is falsy is skipped. A
  TypeScript block fails the run with a configuration error when a \<open>transpileFn\<close> was
  supplied or no \<open>tsconfig\<close> was; the tests show this error as the rejection itself and,
  when both conditions hold, the \<open>transpileFn\<close> message. A block that throws gets an
  error output, its error is recorded under its position, and the blocks after it are not
  run. The first component of the result is the configuration error, if any.
\<close>

fun evaluateLoop ::
  "'w engine \<Rightarrow> options \<Rightarrow> nat \<Rightarrow> block list \<Rightarrow> 'w \<Rightarrow> js_error option \<times> block list \<times> error_map \<times> 'w" where
  "evaluateLoop eng opts i [] w = (None, [], [], w)"
| "evaluateLoop eng opts i (b # bs) w =
     (if \<not> isExecutable b \<or> \<not> flagTruthy (flags b ''evaluate'') then
        (case evaluateLoop eng opts (Suc i) bs w of
           (ce, bs', errs, w') \<Rightarrow> (ce, b # bs', errs, w'))
      else if lang b = ''typescript'' \<and> transpileFn opts \<noteq> None then
        (Some transpileFnConflict, b # bs, [], w)
      else if lang b = ''typescript'' \<and> tsconfig opts = None then
        (Some tsconfigMissing, b # bs, [], w)
      else
        (let t = transpileBlock eng opts b;
             b1 = b\<lparr> transpiled := t \<rparr>;
             src = (case t of Some c \<Rightarrow> c | None \<Rightarrow> code b)
         in case exec eng (captureFor opts b) (flags b) src w of
              (Returned out, w') \<Rightarrow>
                (case evaluateLoop eng opts (Suc i) bs w' of
                   (ce, bs', errs, w'') \<Rightarrow> (ce, b1\<lparr> block_output := out \<rparr> # bs', errs, w''))
            | (Threw txt, w') \<Rightarrow>
                (let shown = (if flagTruthy (flags b ''cleanStackTrace'') then cleanStackTrace eng txt else txt)
                 in (None, b1\<lparr> block_output := Some \<lparr> kind = KError, text_of = shown \<rparr> \<rparr> # bs,
                     [(i, SnippetProcessingError (Error txt))], w'))))"

text \<open>
  \<open>evaluate(options)\<close>: the one-shot guard comes first and does not look at the options;
  a call without options reads every option as absent. The preamble is run before the
  first block. The pairing violations that \<open>check()\<close> finds and the errors of the blocks
  are rejected together as one FileEvaluationError. The result is the rejection or the
  resolution of the promise, with the collection and the scope as the call leaves them.
\<close>

definition evaluate ::
  "'w engine \<Rightarrow> options option \<Rightarrow> snippets \<Rightarrow> 'w \<Rightarrow> (rejection + unit) \<times> snippets \<times> 'w" where
  "evaluate eng options s w =
     (if evaluated s then (Inl (Plain evaluatedTwice), s, w)
      else
        (let s1 = s\<lparr> evaluated := True \<rparr>;
             opts = (case options of Some ops \<Rightarrow> ops | None \<Rightarrow> noOptions);
             w0 = (case preamble opts of Some p \<Rightarrow> execPreamble eng p w | None \<Rightarrow> w)
         in case evaluateLoop eng opts 0 (items s1) w0 of
              (configError, bs', evalErrors, w') \<Rightarrow>
                (let errs = check s1 @ evalErrors;
                     s2 = s1\<lparr> items := bs' \<rparr>
                 in case configError of
                      Some e \<Rightarrow> (Inl (Plain e), s2, w')
                    | None \<Rightarrow>
                        if errs = [] then (Inr (), s2, w') else (Inl (FileEvaluationError errs), s2, w'))))"

text \<open>An engine for the concrete examples: the scope is the list of the texts run so far, and code starting with \<open>!\<close> throws.\<close>

definition exampleEngine :: "string list engine" where
  "exampleEngine =
     \<lparr> exec = (\<lambda>c f src w. (if take 1 src = ''!'' then Threw src
                             else Returned (Some \<lparr> kind = KResult, text_of = src \<rparr>), w @ [src])),
       execPreamble = (\<lambda>p w. w @ [p]),
       tsTranspile = (\<lambda>cfg src. src),
       cleanStackTrace = (\<lambda>txt. txt) \<rparr>"

definition exampleBlock :: "string \<Rightarrow> string \<Rightarrow> (string \<times> flagval) list \<Rightarrow> block" where
  "exampleBlock l c fl = \<lparr> lang = l, flags = map_of fl, index = 0, code = c, block_output = None, transpiled = None \<rparr>"

text \<open>A first run over one JavaScript block.\<close>

definition exampleRun :: "(rejection + unit) \<times> snippets \<times> string list" where
  "exampleRun = evaluate exampleEngine (Some noOptions)
     (newSnippets [exampleBlock ''javascript'' ''return 1'' [(''evaluate'', FBool True)]]) []"

section \<open>Extraction of blocks (lib/md/extractSnippets.js)\<close>

text \<open>
  Modelled from the spec: \<open>lib/md/extractSnippets.js\<close> (with its flag parser) is not
  among the sources; only its tests are. The model follows sections 4.1 and 4.2 of the
  specification. Two points the specification leaves open or states otherwise are taken
  from the tests: every block, output blocks included, starts from \<open>evaluate: true\<close>,
  and an extraction called without a marker reads every comment before a fence for flags.
  The recorded index is that of section 4.2, step 3: the offset of the directive comment
  when there is one, the offset of the fence otherwise.

  Locating fences and comments in the text is the work of the external markdown parser.
  A document is therefore given as the sequence of its pieces; offsets are computed from
  the pieces' source text.
\<close>

datatype piece = Prose string | Comment string | Fence string string

definition fenceMark :: string where
  "fenceMark = replicate 3 (CHR 0x60)"

fun pieceSource :: "piece \<Rightarrow> string" where
  "pieceSource (Prose s) = s"
| "pieceSource (Comment c) = ''<!--'' @ c @ ''-->''"
| "pieceSource (Fence tag body) = fenceMark @ tag @ [CHR 0x0A] @ body @ [CHR 0x0A] @ fenceMark"

definition documentSource :: "piece list \<Rightarrow> string" where
  "documentSource ps = concat (map pieceSource ps)"

subsection \<open>FlagParser\<close>

definition isSpace :: "char \<Rightarrow> bool" where
  "isSpace c = (c = CHR 0x20 \<or> c = CHR 0x09 \<or> c = CHR 0x0A \<or> c = CHR 0x0B \<or> c = CHR 0x0C \<or> c = CHR 0x0D)"

definition isBlank :: "string \<Rightarrow> bool" where
  "isBlank s = list_all isSpace s"

definition trim :: "string \<Rightarrow> string" where
  "trim s = rev (dropWhile isSpace (rev (dropWhile isSpace s)))"

fun splitOn :: "char \<Rightarrow> string \<Rightarrow> string list" where
  "splitOn c [] = [[]]"
| "splitOn c (x # xs) =
     (if x = c then [] # splitOn c xs
      else (case splitOn c xs of
              w # ws \<Rightarrow> (x # w) # ws
            | [] \<Rightarrow> [[x]]))"

text \<open>A bare \<open>true\<close> or \<open>false\<close> becomes the boolean, anything else stays a string.\<close>

definition coerceValue :: "string \<Rightarrow> flagval" where
  "coerceValue v = (if v = ''true'' then FBool True else if v = ''false'' then FBool False else FStr v)"

text \<open>
  One \<open>key:value\<close> entry, split at its first colon, with the whitespace around key,
  colon and value trimmed. An entry without a colon, key or value is malformed.
\<close>

definition parseFlag :: "string \<Rightarrow> (string \<times> flagval) option" where
  "parseFlag entry =
     (let t = trim entry;
          key = trim (takeWhile (\<lambda>c. c \<noteq> CHR '':'') t);
          rest = dropWhile (\<lambda>c. c \<noteq> CHR '':'') t
      in if rest = [] then None
         else (let v = trim (tl rest)
               in if key = [] \<or> v = [] then None else Some (key, coerceValue v)))"

text \<open>
  \<open>parse(text)\<close>: the entries are separated by commas; a later entry overwrites an
  earlier one of the same key; malformed input gives the empty mapping.
\<close>

definition parseFlags :: "string \<Rightarrow> flagmap" where
  "parseFlags txt =
     (let entries = map parseFlag (splitOn (CHR '','') txt)
      in if None \<in> set entries then Map.empty
         else fold (\<lambda>e m. case e of Some (k, v) \<Rightarrow> m(k \<mapsto> v) | None \<Rightarrow> m) entries Map.empty)"

subsection \<open>SnippetExtractor\<close>

text \<open>The language tag is split at its first \<open>#\<close>; \<open>js\<close> is normalised to \<open>javascript\<close>.\<close>

definition splitTag :: "string \<Rightarrow> string \<times> string option" where
  "splitTag tag =
     (takeWhile (\<lambda>c. c \<noteq> CHR ''#'') tag,
      case dropWhile (\<lambda>c. c \<noteq> CHR ''#'') tag of [] \<Rightarrow> None | h # s \<Rightarrow> Some s)"

definition normalizeLang :: "string \<Rightarrow> string" where
  "normalizeLang l = (if l = ''js'' then ''javascript'' else l)"

text \<open>
  The flag text of a comment: with a configured marker the comment must begin with the
  marker, and the flag text is what follows it; with no marker configured the whole
  comment is flag text.
\<close>

definition directiveOf :: "string option \<Rightarrow> string \<Rightarrow> string option" where
  "directiveOf marker content =
     (let t = trim content
      in case marker of
           None \<Rightarrow> Some t
         | Some m \<Rightarrow>
             (let r = drop (length m) t
              in if take (length m) t = m \<and> (r = [] \<or> isSpace (hd r)) then Some (trim r) else None))"

text \<open>
  The block of one fence. \<open>pending\<close> is the comment immediately before the fence, with
  its offset, if there is one; \<open>off\<close> is the offset of the fence's opening marker.
  When the comment is a directive comment its flags are merged under those of the fence
  suffix and the index becomes the comment's offset.
\<close>

definition snippetOf :: "string option \<Rightarrow> (nat \<times> string) option \<Rightarrow> nat \<Rightarrow> string \<Rightarrow> string \<Rightarrow> block" where
  "snippetOf marker pending off tag body =
     (let fenceFlags = (case snd (splitTag tag) of Some s \<Rightarrow> parseFlags s | None \<Rightarrow> Map.empty);
          directive = (case pending of
                         Some (coff, c) \<Rightarrow> map_option (Pair coff) (directiveOf marker c)
                       | None \<Rightarrow> None);
          commentFlags = (case directive of Some (coff, t) \<Rightarrow> parseFlags t | None \<Rightarrow> Map.empty);
          idx = (case directive of Some (coff, t) \<Rightarrow> coff | None \<Rightarrow> off)
      in \<lparr> lang = normalizeLang (fst (splitTag tag)),
           flags = [''evaluate'' \<mapsto> FBool True] ++ commentFlags ++ fenceFlags,
           index = idx,
           code = body,
           block_output = None,
           transpiled = None \<rparr>)"

text \<open>
  The walk over the pieces, with the running offset and the pending comment. A comment
  stays pending over prose that is only whitespace; any other prose, and a fence, clear it.
\<close>

fun scan :: "string option \<Rightarrow> nat \<Rightarrow> (nat \<times> string) option \<Rightarrow> piece list \<Rightarrow> block list" where
  "scan marker off pending [] = []"
| "scan marker off pending (Prose s # ps) =
     scan marker (off + length s) (if isBlank s then pending else None) ps"
| "scan marker off pending (Comment c # ps) =
     scan marker (off + length (pieceSource (Comment c))) (Some (off, c)) ps"
| "scan marker off pending (Fence tag body # ps) =
     snippetOf marker pending off tag body
       # scan marker (off + length (pieceSource (Fence tag body))) None ps"

definition extractSnippets :: "string option \<Rightarrow> piece list \<Rightarrow> block list" where
  "extractSnippets marker doc = scan marker 0 None doc"

definition fromMarkdown :: "string \<Rightarrow> piece list \<Rightarrow> snippets" where
  "fromMarkdown marker doc = newSnippets (extractSnippets (Some marker) doc)"

text \<open>The comment that is pending after a sequence of pieces, as \<open>scan\<close> carries it.\<close>

fun pendingAfter :: "nat \<Rightarrow> (nat \<times> string) option \<Rightarrow> piece list \<Rightarrow> (nat \<times> string) option" where
  "pendingAfter off pending [] = pending"
| "pendingAfter off pending (Prose s # ps) =
     pendingAfter (off + length s) (if isBlank s then pending else None) ps"
| "pendingAfter off pending (Comment c # ps) =
     pendingAfter (off + length (pieceSource (Comment c))) (Some (off, c)) ps"
| "pendingAfter off pending (Fence tag body # ps) =
     pendingAfter (off + length (pieceSource (Fence tag body))) None ps"



text \<open>The documents of two tests of the repository, as pieces.\<close>

definition skipsPastCommentDoc :: "piece list" where
  "skipsPastCommentDoc =
     [Prose (''foobar'' @ [CHR 0x0A]),
      Comment '' foo: bar '',
      Prose [CHR 0x0A],
      Fence ''js#foo:false'' (''alert('' @ [CHR 0x22] @ ''Hello!'' @ [CHR 0x22] @ '');''),
      Prose [CHR 0x0A]]"

definition fromMarkdownDoc :: "piece list" where
  "fromMarkdownDoc =
     [Prose (''Asserts deep equality.'' @ [CHR 0x0A, CHR 0x0A]),
      Fence ''javascript''
        (''throw new Error('' @ [CHR 0x22] @ ''foo'' @ [CHR 0x5C] @ ''n  at bar (/somewhere.js:1:2)''
          @ [CHR 0x5C] @ ''n  at quux (/blah.js:3:4)'' @ [CHR 0x5C] @ ''n  at baz (/yadda.js:5:6)''
          @ [CHR 0x22] @ '')''),
      Prose [CHR 0x0A, CHR 0x0A],
      Comment '' evaldown cleanStackTrace:true '',
      Prose [CHR 0x0A],
      Fence ''output''
        (''foo'' @ [CHR 0x0A] @ ''  at bar (/path/to/file.js:x:y)'' @ [CHR 0x0A]
          @ ''  at quux (/path/to/file.js:x:y)'')]"

section \<open>Theorems\<close>

subsection \<open>C8: isValidExtension\<close>

text \<open>
  C8. For every string input \<open>isValidExtension\<close> returns the regular expression object
  itself, a truthy value, and not a boolean test result, so the constructor keeps every
  string it is given as the extension (the empty string and strings without a leading dot
  included); for every input that is not a string it returns \<open>false\<close> and the
  constructor falls back to the default.
\<close>

theorem isValidExtension_returns_regex:
  "isValidExtension (JStr s) = JRegExp extensionPattern
   \<and> truthy (isValidExtension (JStr s))
   \<and> (\<forall>b. isValidExtension (JStr s) \<noteq> JBool b)
   \<and> chooseExtension (JStr s) dflt = JStr s
   \<and> (typeof v \<noteq> ''string'' \<longrightarrow>
        isValidExtension v = JBool False \<and> chooseExtension v dflt = dflt)"
  by (simp add: isValidExtension_def chooseExtension_def js_and_def)

theorem isValidExtension_returns_regex_witness:
  "isValidExtension (JStr ''no dot!'') = JRegExp extensionPattern
   \<and> chooseExtension (JStr ''no dot!'') (JStr DEFAULT_SOURCE_EXTENSION) = JStr ''no dot!''
   \<and> typeof (JNum 7) \<noteq> ''string''
   \<and> isValidExtension (JNum 7) = JBool False
   \<and> chooseExtension (JNum 7) (JStr DEFAULT_SOURCE_EXTENSION) = JStr DEFAULT_SOURCE_EXTENSION"
  using isValidExtension_returns_regex [of "''no dot!''" "JStr DEFAULT_SOURCE_EXTENSION" "JNum 7"]
  by simp

subsection \<open>C7: serialisation of the recorded lines\<close>

lemma fold_append_nl:
  "fold (\<lambda>l p. pen_append l (pen_nl p)) ls acc = acc @ concat (map (\<lambda>l. NL # l) ls)"
  by (induction ls arbitrary: acc) (simp_all add: pen_append_def pen_nl_def)

lemma joinLines_concat:
  "l @ concat (map (\<lambda>m. sep @ m) ls) = joinLines sep (l # ls)"
proof (induction ls arbitrary: l)
  case Nil
  show ?case by simp
next
  case (Cons a ls)
  have "joinLines sep (l # a # ls) = l @ sep @ joinLines sep (a # ls)" by simp
  also have "\<dots> = l @ sep @ a @ concat (map (\<lambda>m. sep @ m) ls)"
    using Cons.IH [of a] by simp
  finally show ?case by simp
qed

lemma pen_text_append: "pen_text (p @ q) = pen_text p @ pen_text q"
  by (simp add: pen_text_def)

lemma pen_text_joinLines:
  "pen_text (joinLines [NL] ls) = joinLines [CHR 0x0A] (map pen_text ls)"
  by (induction "[NL]" ls rule: joinLines.induct) (simp_all add: pen_text_append, simp_all add: pen_text_def)

lemma console_toString_nonempty:
  assumes "con_output con \<noteq> []"
  shows "console_toString ser con = ser (joinLines [NL] (con_output con))"
proof -
  from assms obtain l ls where ls: "con_output con = l # ls" by (cases "con_output con") auto
  have "l @ concat (map (\<lambda>m. [NL] @ m) ls) = joinLines [NL] (l # ls)"
    by (rule joinLines_concat)
  moreover have "console_toString ser con = ser (l @ concat (map (\<lambda>m. NL # m) ls))"
    unfolding console_toString_def Let_def fold_append_nl
    by (simp add: ls pen_clone_def pen_append_def)
  ultimately show ?thesis by (simp add: ls)
qed

lemma toString16_small: "n < 16 \<Longrightarrow> toString16 n = [hexDigit n]"
  by (simp add: toString16.simps)

lemma toString16_two: "16 \<le> n \<Longrightarrow> n < 256 \<Longrightarrow> toString16 n = [hexDigit (n div 16), hexDigit (n mod 16)]"
  by (subst toString16.simps) (simp add: toString16_small less_mult_imp_div_less)

lemma hexDigit_0: "hexDigit 0 = CHR ''0''"
  by (simp add: hexDigit_def)

lemma replacer_hex:
  assumes "(of_char c :: nat) < 32"
    and "c \<notin> {CHR 0x0A, CHR 0x0D, CHR 0x09, CHR 0x08, CHR 0x0C}"
  shows "replacer c = [CHR 0x5C, CHR ''x'', hexDigit (of_char c div 16), hexDigit (of_char c mod 16)]"
proof -
  have ne: "c \<noteq> CHR 0x27" "c \<noteq> CHR 0x5C" using assms(1) by auto
  show ?thesis
  proof (cases "(of_char c :: nat) < 16")
    case True
    then show ?thesis using assms(2) ne
      by (simp add: replacer_def Let_def toString16_small hexDigit_0)
  next
    case False
    then have "toString16 (of_char c) = [hexDigit (of_char c div 16), hexDigit (of_char c mod 16)]"
      using assms(1) by (intro toString16_two) auto
    then show ?thesis using assms(2) ne False
      by (simp add: replacer_def Let_def)
  qed
qed

lemma escapeContent_single:
  "escapeContent [c] =
     (if c = CHR 0x5C then [CHR 0x5C, CHR 0x5C]
      else if c = CHR 0x27 then [CHR 0x5C, CHR 0x27]
      else if c = CHR 0x0A then [CHR 0x5C, CHR ''n'']
      else if c = CHR 0x0D then [CHR 0x5C, CHR ''r'']
      else if c = CHR 0x09 then [CHR 0x5C, CHR ''t'']
      else if c = CHR 0x08 then [CHR 0x5C, CHR ''b'']
      else if c = CHR 0x0C then [CHR 0x5C, CHR ''f'']
      else if (of_char c :: nat) < 32
        then [CHR 0x5C, CHR ''x'', hexDigit (of_char c div 16), hexDigit (of_char c mod 16)]
      else [c])"
proof -
  consider (named) "c \<in> {CHR 0x5C, CHR 0x27, CHR 0x0A, CHR 0x0D, CHR 0x09, CHR 0x08, CHR 0x0C}"
    | (ctl) "c \<notin> {CHR 0x5C, CHR 0x27, CHR 0x0A, CHR 0x0D, CHR 0x09, CHR 0x08, CHR 0x0C}" "(of_char c :: nat) < 32"
    | (plain) "c \<notin> {CHR 0x5C, CHR 0x27, CHR 0x0A, CHR 0x0D, CHR 0x09, CHR 0x08, CHR 0x0C}" "\<not> (of_char c :: nat) < 32"
    by blast
  then show ?thesis
  proof cases
    case named
    then show ?thesis
      by (auto simp add: escapeContent_def matchesEscapeClass_def replacer_def)
  next
    case ctl
    then have "replacer c = [CHR 0x5C, CHR ''x'', hexDigit (of_char c div 16), hexDigit (of_char c mod 16)]"
      by (intro replacer_hex) auto
    then show ?thesis using ctl
      by (simp add: escapeContent_def matchesEscapeClass_def)
  next
    case plain
    then show ?thesis
      by (auto simp add: escapeContent_def matchesEscapeClass_def)
  qed
qed

lemma escapeContent_append: "escapeContent (s @ t) = escapeContent s @ escapeContent t"
  by (simp add: escapeContent_def)

lemma pen_text_stringToOutput:
  "pen_text (stringToOutput s b e) = [CHR 0x27] @ escapeContent s @ [CHR 0x27]"
  by (simp add: stringToOutput_def pen_clone_def pen_style_def pen_text_def Let_def)

lemma line_string:
  "con_output (line out (JStr s) con) =
     con_output con @ [stringToOutput s (base_output (con_expect con)) (out = ''stderr'')]"
  by (simp add: line_def)


text \<open>
  C7. A console with no recorded line serialises to the empty string. With at least one
  line, the serialised pen is the recorded lines in recording order with one line break
  between neighbours, so that its text format is the lines' texts joined by single line
  feeds. A string is recorded (at the end of the lines) as the pen of \<open>stringToOutput\<close>,
  whose text is the content between single quotes with every character of the content
  escaped on its own: backslash, single quote, line feed, carriage return, tab, backspace
  and form feed become their two-character escape sequences, every other code below 0x20
  becomes \<open>\xNN\<close> with two lower-case hexadecimal digits, and every other character
  (0x7f included) is copied.
\<close>

theorem console_serialization:
  "(con_output con = [] \<longrightarrow> console_toString ser con = [])
   \<and> (con_output con \<noteq> [] \<longrightarrow>
        console_toString ser con = ser (joinLines [NL] (con_output con))
        \<and> console_toString pen_text con = joinLines [CHR 0x0A] (map pen_text (con_output con)))
   \<and> con_output (line out (JStr s) con) =
        con_output con @ [stringToOutput s (base_output (con_expect con)) (out = ''stderr'')]
   \<and> pen_text (stringToOutput s b e) = [CHR 0x27] @ escapeContent s @ [CHR 0x27]
   \<and> escapeContent [] = []
   \<and> escapeContent (c # t) = escapeContent [c] @ escapeContent t
   \<and> escapeContent [c] =
       (if c = CHR 0x5C then [CHR 0x5C, CHR 0x5C]
        else if c = CHR 0x27 then [CHR 0x5C, CHR 0x27]
        else if c = CHR 0x0A then [CHR 0x5C, CHR ''n'']
        else if c = CHR 0x0D then [CHR 0x5C, CHR ''r'']
        else if c = CHR 0x09 then [CHR 0x5C, CHR ''t'']
        else if c = CHR 0x08 then [CHR 0x5C, CHR ''b'']
        else if c = CHR 0x0C then [CHR 0x5C, CHR ''f'']
        else if (of_char c :: nat) < 32
          then [CHR 0x5C, CHR ''x'', hexDigit (of_char c div 16), hexDigit (of_char c mod 16)]
        else [c])"
proof (intro conjI impI)
  assume "con_output con = []"
  then show "console_toString ser con = []"
    by (simp add: console_toString_def)
next
  assume ne: "con_output con \<noteq> []"
  then show "console_toString ser con = ser (joinLines [NL] (con_output con))"
    by (rule console_toString_nonempty)
  from ne show "console_toString pen_text con = joinLines [CHR 0x0A] (map pen_text (con_output con))"
    by (simp add: console_toString_nonempty pen_text_joinLines)
next
  show "con_output (line out (JStr s) con) =
        con_output con @ [stringToOutput s (base_output (con_expect con)) (out = ''stderr'')]"
    by (rule line_string)
next
  show "pen_text (stringToOutput s b e) = [CHR 0x27] @ escapeContent s @ [CHR 0x27]"
    by (rule pen_text_stringToOutput)
next
  show "escapeContent [] = []"
    by (simp add: escapeContent_def)
next
  show "escapeContent (c # t) = escapeContent [c] @ escapeContent t"
    using escapeContent_append [of "[c]" t] by simp
next
  show "escapeContent [c] =
       (if c = CHR 0x5C then [CHR 0x5C, CHR 0x5C]
        else if c = CHR 0x27 then [CHR 0x5C, CHR 0x27]
        else if c = CHR 0x0A then [CHR 0x5C, CHR ''n'']
        else if c = CHR 0x0D then [CHR 0x5C, CHR ''r'']
        else if c = CHR 0x09 then [CHR 0x5C, CHR ''t'']
        else if c = CHR 0x08 then [CHR 0x5C, CHR ''b'']
        else if c = CHR 0x0C then [CHR 0x5C, CHR ''f'']
        else if (of_char c :: nat) < 32
          then [CHR 0x5C, CHR ''x'', hexDigit (of_char c div 16), hexDigit (of_char c mod 16)]
        else [c])"
    by (rule escapeContent_single)
qed

theorem console_serialization_witness:
  "con_output (newInspectedConsole exampleExpect) = []
   \<and> console_toString pen_text (newInspectedConsole exampleExpect) = []
   \<and> con_output (console_warn [JStr ''whoa there!''] (console_log [JStr [CHR ''a'', CHR 0x0B, CHR 0x27]] (newInspectedConsole exampleExpect))) \<noteq> []
   \<and> console_toString pen_text
        (console_warn [JStr ''whoa there!''] (console_log [JStr [CHR ''a'', CHR 0x0B, CHR 0x27]] (newInspectedConsole exampleExpect)))
      = [CHR 0x27, CHR ''a'', CHR 0x5C, CHR ''x'', CHR ''0'', CHR ''b'', CHR 0x5C, CHR 0x27, CHR 0x27, CHR 0x0A, CHR 0x27]
        @ ''whoa there!'' @ [CHR 0x27]"
  using console_serialization [of "newInspectedConsole exampleExpect" pen_text "''stdout''" "[]" "[]" False "CHR ''a''" "[]"]
    console_serialization [of "console_warn [JStr ''whoa there!''] (console_log [JStr [CHR ''a'', CHR 0x0B, CHR 0x27]] (newInspectedConsole exampleExpect))"
      pen_text "''stdout''" "[]" "[]" False "CHR ''a''" "[]"]
  by (simp add: newInspectedConsole_def console_warn_def console_log_def makeBoundConsoleMethod_def
      line_def stringToOutput_def pen_clone_def pen_style_def pen_text_def escapeContent_def
      matchesEscapeClass_def replacer_def toString16_small hexDigit_def exampleExpect_def Let_def)

subsection \<open>C10: what one call of log, info, warn or error records\<close>

lemma typeof_string_iff: "typeof v = ''string'' \<longleftrightarrow> (\<exists>s. v = JStr s)"
  by (cases v) simp_all

lemma con_expect_line: "con_expect (line out v con) = con_expect con"
  by (simp add: line_def)

lemma con_output_line:
  "con_output (line out v con) =
     con_output con @ [case v of JStr t \<Rightarrow> stringToOutput t (base_output (con_expect con)) (out = ''stderr'')
                       | _ \<Rightarrow> inspect (con_expect con) v 6]"
  by (simp add: line_def)

lemma con_expect_fold_line: "con_expect (fold (line out) vs con) = con_expect con"
  by (induction vs arbitrary: con) (simp_all add: con_expect_line)

lemma con_output_fold_line:
  "con_output (fold (line out) vs con) =
     con_output con @ map (\<lambda>v. case v of JStr t \<Rightarrow> stringToOutput t (base_output (con_expect con)) (out = ''stderr'')
                                 | _ \<Rightarrow> inspect (con_expect con) v 6) vs"
  by (induction vs arbitrary: con) (simp_all add: con_output_line con_expect_line cong: jsval.case_cong)

lemma map_line_no_strings:
  assumes "\<forall>v\<in>set vs. typeof v \<noteq> ''string''"
  shows "map (\<lambda>v. case v of JStr t \<Rightarrow> f t | _ \<Rightarrow> g v) vs = map g vs"
proof (rule map_cong [OF refl])
  fix v assume "v \<in> set vs"
  with assms have "typeof v \<noteq> ''string''" by blast
  then show "(case v of JStr t \<Rightarrow> f t | _ \<Rightarrow> g v) = g v"
    by (cases v) simp_all
qed

text \<open>
  C10 (amended). A call whose first argument is a string records exactly one line, that
  string escaped and quoted, and ignores the remaining arguments. A call whose first
  argument is not a string records one line for each argument in order: an argument that
  is not a string through \<open>inspect\<close> with depth 6, a string among the later arguments
  escaped and quoted like a leading one; when no argument is a string, every line is
  \<open>inspect(argument, 6)\<close>. A call with no argument records one line,
  \<open>inspect(undefined, 6)\<close>. \<open>log\<close> and \<open>info\<close> write as stdout, \<open>warn\<close> and
  \<open>error\<close> as stderr.
\<close>

theorem console_method_records:
  "con_output (makeBoundConsoleMethod out (JStr s # rest) con) =
     con_output con @ [stringToOutput s (base_output (con_expect con)) (out = ''stderr'')]
   \<and> (typeof first \<noteq> ''string'' \<longrightarrow>
        con_output (makeBoundConsoleMethod out (first # rest) con) =
          con_output con @
          map (\<lambda>v. case v of
                      JStr t \<Rightarrow> stringToOutput t (base_output (con_expect con)) (out = ''stderr'')
                    | _ \<Rightarrow> inspect (con_expect con) v 6) (first # rest))
   \<and> ((\<forall>v \<in> set (first # rest). typeof v \<noteq> ''string'') \<longrightarrow>
        con_output (makeBoundConsoleMethod out (first # rest) con) =
          con_output con @ map (\<lambda>v. inspect (con_expect con) v 6) (first # rest))
   \<and> con_output (makeBoundConsoleMethod out [] con) =
        con_output con @ [inspect (con_expect con) JUndefined 6]
   \<and> console_log args con = makeBoundConsoleMethod ''stdout'' args con
   \<and> console_info args con = makeBoundConsoleMethod ''stdout'' args con
   \<and> console_warn args con = makeBoundConsoleMethod ''stderr'' args con
   \<and> console_error args con = makeBoundConsoleMethod ''stderr'' args con"
proof (intro conjI impI)
  show "con_output (makeBoundConsoleMethod out (JStr s # rest) con) =
     con_output con @ [stringToOutput s (base_output (con_expect con)) (out = ''stderr'')]"
    by (simp add: makeBoundConsoleMethod_def line_string)
next
  assume "typeof first \<noteq> ''string''"
  then show "con_output (makeBoundConsoleMethod out (first # rest) con) =
          con_output con @
          map (\<lambda>v. case v of
                      JStr t \<Rightarrow> stringToOutput t (base_output (con_expect con)) (out = ''stderr'')
                    | _ \<Rightarrow> inspect (con_expect con) v 6) (first # rest)"
    unfolding makeBoundConsoleMethod_def Let_def
    by (simp only: list.case list.sel if_False con_output_fold_line)
next
  assume all: "\<forall>v \<in> set (first # rest). typeof v \<noteq> ''string''"
  then have "typeof first \<noteq> ''string''" by simp
  then have "con_output (makeBoundConsoleMethod out (first # rest) con) =
          con_output con @
          map (\<lambda>v. case v of
                      JStr t \<Rightarrow> stringToOutput t (base_output (con_expect con)) (out = ''stderr'')
                    | _ \<Rightarrow> inspect (con_expect con) v 6) (first # rest)"
    unfolding makeBoundConsoleMethod_def Let_def
    by (simp only: list.case list.sel if_False con_output_fold_line)
  then show "con_output (makeBoundConsoleMethod out (first # rest) con) =
          con_output con @ map (\<lambda>v. inspect (con_expect con) v 6) (first # rest)"
    by (simp only: map_line_no_strings [OF all])
next
  show "con_output (makeBoundConsoleMethod out [] con) =
        con_output con @ [inspect (con_expect con) JUndefined 6]"
    by (simp add: makeBoundConsoleMethod_def con_output_line)
qed (simp_all add: console_log_def console_info_def console_warn_def console_error_def)

theorem console_method_records_witness:
  "typeof (JNum 1) \<noteq> ''string''
   \<and> con_output (console_log [JNum 1, JStr ''x''] (newInspectedConsole exampleExpect)) =
       [inspect exampleExpect (JNum 1) 6, stringToOutput ''x'' [] False]
   \<and> typeof JNull \<noteq> ''string''
   \<and> con_output (console_error [JNum 1, JNull] (newInspectedConsole exampleExpect)) =
       [inspect exampleExpect (JNum 1) 6, inspect exampleExpect JNull 6]
   \<and> con_output (console_warn [JStr ''x'', JNull] (newInspectedConsole exampleExpect)) =
       [stringToOutput ''x'' [] True]"
  using console_method_records [of "''stdout''" "''x''" "[JStr ''x'']" "newInspectedConsole exampleExpect" "JNum 1" "[]"]
    console_method_records [of "''stderr''" "''x''" "[JNull]" "newInspectedConsole exampleExpect" "JNum 1" "[]"]
  by (simp add: console_log_def console_warn_def console_error_def newInspectedConsole_def exampleExpect_def)

text \<open>
  C10 as stated fails: \<open>console.log()\<close> has no argument and records one line, and
  in \<open>console.log(1, "x")\<close> the second line is the quoted string, not
  \<open>inspect("x", 6)\<close>.
\<close>

theorem console_method_counterexample:
  "length (con_output (console_log [] (newInspectedConsole exampleExpect))) = 1
   \<and> length ([] :: jsval list) = 0
   \<and> typeof (JNum 1) \<noteq> ''string''
   \<and> con_output (console_log [JNum 1, JStr ''x''] (newInspectedConsole exampleExpect)) ! 1
       = stringToOutput ''x'' [] False
   \<and> stringToOutput ''x'' [] False \<noteq> inspect exampleExpect (JStr ''x'') 6"
  by (simp add: console_log_def makeBoundConsoleMethod_def line_def newInspectedConsole_def
      exampleExpect_def stringToOutput_def pen_clone_def pen_style_def Let_def)

subsection \<open>C9: a failing file does not stop the batch\<close>

lemma processFilesLoop_acc:
  "processFilesLoop pf files st w =
     (st @ fst (processFilesLoop pf files [] w), snd (processFilesLoop pf files [] w))"
proof (induction files arbitrary: st w)
  case Nil
  show ?case by simp
next
  case (Cons f fs)
  obtain r w' where r: "pf f w = (r, w')" by (cases "pf f w")
  show ?case
  proof (cases r)
    case (Inl e)
    then show ?thesis
      using Cons.IH [of "addError f e st" w'] Cons.IH [of "addError f e []" w'] r
      by (simp add: addError_def)
  next
    case (Inr u)
    then show ?thesis
      using Cons.IH [of "addSuccess f st" w'] Cons.IH [of "addSuccess f []" w'] r
      by (simp add: addSuccess_def)
  qed
qed

lemma processFilesLoop_Cons:
  "processFilesLoop pf (file # files) [] w =
     ((file, outcomeOf (fst (pf file w))) # fst (processFilesLoop pf files [] (snd (pf file w))),
      snd (processFilesLoop pf files [] (snd (pf file w))))"
proof -
  obtain r w' where r: "pf file w = (r, w')" by (cases "pf file w")
  show ?thesis
  proof (cases r)
    case (Inl e)
    then show ?thesis
      using r processFilesLoop_acc [of pf files "addError file e []" w']
      by (simp add: addError_def outcomeOf_def)
  next
    case (Inr u)
    then show ?thesis
      using r processFilesLoop_acc [of pf files "addSuccess file []" w']
      by (simp add: addSuccess_def outcomeOf_def)
  qed
qed

lemma processFilesLoop_files:
  "map fst (fst (processFilesLoop pf files [] w)) = files"
  by (induction files arbitrary: w) (simp_all add: processFilesLoop_Cons del: processFilesLoop.simps(2))

lemma processFilesLoop_world:
  "snd (processFilesLoop pf files [] w) = worldAfter pf files w"
  by (induction files arbitrary: w) (simp_all add: processFilesLoop_Cons worldAfter_def del: processFilesLoop.simps(2))

lemma processFilesLoop_entry:
  "i < length files \<Longrightarrow>
   fst (processFilesLoop pf files [] w) ! i =
     (files ! i, outcomeOf (fst (pf (files ! i) (worldAfter pf (take i files) w))))"
proof (induction files arbitrary: w i)
  case Nil
  then show ?case by simp
next
  case (Cons f fs)
  show ?case
  proof (cases i)
    case 0
    then show ?thesis by (simp add: processFilesLoop_Cons worldAfter_def del: processFilesLoop.simps(2))
  next
    case (Suc j)
    with Cons.prems have "j < length fs" by simp
    from Cons.IH [OF this, of "snd (pf f w)"] Suc show ?thesis
      by (simp add: processFilesLoop_Cons worldAfter_def del: processFilesLoop.simps(2))
  qed
qed

text \<open>
  C9. Once the glob has delivered the file names, \<open>processFiles\<close> does not reject,
  whatever \<open>processFile\<close> does: it returns Stats with exactly one entry for each file,
  in the order of the files. The entry of the i-th file is the outcome of
  \<open>processFile\<close> on that file, called in the world that the calls for the files before
  it left behind, failed or not: a success is recorded as such, a thrown error is caught
  and recorded with the file, and the loop goes on to the next file.
\<close>

theorem processFiles_continues:
  assumes "glob w = (Inr files, w1)"
  shows "\<exists>stats. processFiles glob processFile w = (Inr stats, worldAfter processFile files w1)
           \<and> map fst stats = files
           \<and> (\<forall>i < length files.
                 stats ! i = (files ! i,
                   outcomeOf (fst (processFile (files ! i) (worldAfter processFile (take i files) w1)))))"
proof -
  let ?stats = "fst (processFilesLoop processFile files [] w1)"
  have "processFiles glob processFile w = (Inr ?stats, worldAfter processFile files w1)"
    using assms by (simp add: processFiles_def newStats_def processFilesLoop_world [symmetric] split: prod.split)
  moreover have "map fst ?stats = files" by (rule processFilesLoop_files)
  moreover have "\<forall>i < length files.
      ?stats ! i = (files ! i,
        outcomeOf (fst (processFile (files ! i) (worldAfter processFile (take i files) w1))))"
    by (simp add: processFilesLoop_entry)
  ultimately show ?thesis by blast
qed

theorem processFiles_continues_witness:
  "exampleGlob 0 = (Inr [''a.md'', ''bad.md'', ''c.md''], 0)
   \<and> processFiles exampleGlob exampleProcessFile 0
       = (Inr [(''a.md'', Succeeded), (''bad.md'', Failed ''unreadable''), (''c.md'', Succeeded)], 3)
   \<and> worldAfter exampleProcessFile [''a.md'', ''bad.md'', ''c.md''] 0 = 3"
proof -
  have g: "exampleGlob 0 = (Inr [''a.md'', ''bad.md'', ''c.md''], 0)"
    by (simp add: exampleGlob_def)
  have "\<exists>stats. processFiles exampleGlob exampleProcessFile 0
          = (Inr stats, worldAfter exampleProcessFile [''a.md'', ''bad.md'', ''c.md''] 0)"
    using processFiles_continues [of exampleGlob 0 "[''a.md'', ''bad.md'', ''c.md'']" 0 exampleProcessFile, OF g]
    by blast
  then obtain stats where ex: "processFiles exampleGlob exampleProcessFile 0
          = (Inr stats, worldAfter exampleProcessFile [''a.md'', ''bad.md'', ''c.md''] 0)" ..
  have v: "processFiles exampleGlob exampleProcessFile 0
       = (Inr [(''a.md'', Succeeded), (''bad.md'', Failed ''unreadable''), (''c.md'', Succeeded)], 3)"
    by (simp add: processFiles_def exampleGlob_def newStats_def addSuccess_def addError_def exampleProcessFile_def)
  from ex v have "worldAfter exampleProcessFile [''a.md'', ''bad.md'', ''c.md''] 0 = 3"
    by (simp only: prod.inject)
  with g v show ?thesis by blast
qed

subsection \<open>C2: evaluate() is single-shot\<close>

lemma evaluated_after_evaluate:
  "evaluated (fst (snd (evaluate eng options s w)))"
  by (simp add: evaluate_def Let_def split: option.split prod.split)

text \<open>
  C2. After any call of \<open>evaluate()\<close> on a collection has completed, resolved or
  rejected, a second call on the collection as the first call left it, with any options
  or none and with any engine state, rejects with the error "the same snippets were
  evaluated twice" and leaves the collection as it was: the blocks and the outputs
  recorded by the first call are unchanged, and nothing is executed.
\<close>

theorem evaluate_single_shot:
  assumes "evaluate eng options1 s w = (r1, s1, w1)"
  shows "evaluate eng options2 s1 w1 = (Inl (Plain evaluatedTwice), s1, w1)
         \<and> rejection_message (Plain evaluatedTwice) = ''the same snippets were evaluated twice''
         \<and> items (fst (snd (evaluate eng options2 s1 w1))) = items s1
         \<and> map block_output (items (fst (snd (evaluate eng options2 s1 w1)))) = map block_output (items s1)"
proof -
  have "evaluated (fst (snd (evaluate eng options1 s w)))"
    by (rule evaluated_after_evaluate)
  with assms have "evaluated s1" by simp
  then have "evaluate eng options2 s1 w1 = (Inl (Plain evaluatedTwice), s1, w1)"
    by (simp add: evaluate_def)
  then show ?thesis by (simp add: evaluatedTwice_def)
qed

theorem evaluate_single_shot_witness:
  "fst exampleRun = Inr ()
   \<and> map block_output (items (fst (snd exampleRun))) = [Some \<lparr> kind = KResult, text_of = ''return 1'' \<rparr>]
   \<and> evaluate exampleEngine None (fst (snd exampleRun)) (snd (snd exampleRun))
        = (Inl (Plain evaluatedTwice), fst (snd exampleRun), snd (snd exampleRun))
   \<and> evaluate exampleEngine (Some noOptions) (fst (snd exampleRun)) (snd (snd exampleRun))
        = (Inl (Plain evaluatedTwice), fst (snd exampleRun), snd (snd exampleRun))"
proof -
  have run: "evaluate exampleEngine (Some noOptions)
     (newSnippets [exampleBlock ''javascript'' ''return 1'' [(''evaluate'', FBool True)]]) []
     = (fst exampleRun, fst (snd exampleRun), snd (snd exampleRun))"
    by (simp add: exampleRun_def)
  have v: "fst exampleRun = Inr ()
     \<and> map block_output (items (fst (snd exampleRun))) = [Some \<lparr> kind = KResult, text_of = ''return 1'' \<rparr>]"
    by (simp add: exampleRun_def evaluate_def newSnippets_def exampleBlock_def noOptions_def
        isExecutable_def check_def pairingError_def
        exampleEngine_def captureFor_def transpileBlock_def Let_def)
  from evaluate_single_shot [OF run, of None] evaluate_single_shot [OF run, of "Some noOptions"] v
  show ?thesis by blast
qed

subsection \<open>C3: an output block with nothing before it\<close>

text \<open>
  C3. For a collection whose only block is an output block, \<open>check()\<close> returns the
  mapping with one entry, at position 0, a SnippetProcessingError whose message is
  "no matching code block for output snippet" (the message the claim abbreviates as
  "no matching code block"), and \<open>getTests()\<close> throws an error with that same message.
\<close>

theorem check_orphan_output:
  assumes "items s = [b]" and "lang b = ''output''"
  shows "check s = [(0, SnippetProcessingError noMatchingCodeBlock)]
         \<and> spe_message (SnippetProcessingError noMatchingCodeBlock) = ''no matching code block for output snippet''
         \<and> getTests s = Inl noMatchingCodeBlock
         \<and> message noMatchingCodeBlock = spe_message (SnippetProcessingError noMatchingCodeBlock)"
  using assms
  by (simp add: check_def getTests_def pairingError_def isExecutable_def spe_message_def noMatchingCodeBlock_def)

theorem check_orphan_output_witness:
  "items (newSnippets [exampleBlock ''output'' ''I have been orphaned!'' []]) = [exampleBlock ''output'' ''I have been orphaned!'' []]
   \<and> lang (exampleBlock ''output'' ''I have been orphaned!'' []) = ''output''
   \<and> check (newSnippets [exampleBlock ''output'' ''I have been orphaned!'' []])
       = [(0, SnippetProcessingError (Error ''no matching code block for output snippet''))]
   \<and> getTests (newSnippets [exampleBlock ''output'' ''I have been orphaned!'' []])
       = Inl (Error ''no matching code block for output snippet'')"
proof -
  have i: "items (newSnippets [exampleBlock ''output'' ''I have been orphaned!'' []]) = [exampleBlock ''output'' ''I have been orphaned!'' []]"
    by (simp add: newSnippets_def)
  have l: "lang (exampleBlock ''output'' ''I have been orphaned!'' []) = ''output''"
    by (simp add: exampleBlock_def)
  from check_orphan_output [OF i l] i l show ?thesis
    by (simp add: noMatchingCodeBlock_def)
qed

subsection \<open>C4: an output block after a hidden block\<close>

text \<open>
  C4. For a collection of exactly an executable block whose \<open>hide\<close> flag is \<open>true\<close>
  followed by an output block, \<open>getTests()\<close> throws "cannot match hidden code block to
  output snippet"; without the executable block it throws the other error, and the two
  messages differ.
\<close>

theorem getTests_hidden_block:
  assumes "items s = [h, out]" and "isExecutable h" and "flags h ''hide'' = Some (FBool True)"
    and "lang out = ''output''"
  shows "getTests s = Inl hiddenCodeBlock
         \<and> message hiddenCodeBlock = ''cannot match hidden code block to output snippet''
         \<and> getTests (s\<lparr> items := [out] \<rparr>) = Inl noMatchingCodeBlock
         \<and> message hiddenCodeBlock \<noteq> message noMatchingCodeBlock"
  using assms
  by (auto simp add: getTests_def pairingError_def isHidden_def isExecutable_def
      hiddenCodeBlock_def noMatchingCodeBlock_def)


theorem getTests_hidden_block_witness:
  "items (newSnippets [exampleBlock ''javascript'' ''You cannot see me'' [(''evaluate'', FBool True), (''hide'', FBool True)],
                       exampleBlock ''output'' ''I am not supposed to be here!'' []])
     = [exampleBlock ''javascript'' ''You cannot see me'' [(''evaluate'', FBool True), (''hide'', FBool True)],
        exampleBlock ''output'' ''I am not supposed to be here!'' []]
   \<and> isExecutable (exampleBlock ''javascript'' ''You cannot see me'' [(''evaluate'', FBool True), (''hide'', FBool True)])
   \<and> flags (exampleBlock ''javascript'' ''You cannot see me'' [(''evaluate'', FBool True), (''hide'', FBool True)]) ''hide'' = Some (FBool True)
   \<and> lang (exampleBlock ''output'' ''I am not supposed to be here!'' []) = ''output''
   \<and> getTests (newSnippets [exampleBlock ''javascript'' ''You cannot see me'' [(''evaluate'', FBool True), (''hide'', FBool True)],
                       exampleBlock ''output'' ''I am not supposed to be here!'' []])
       = Inl (Error ''cannot match hidden code block to output snippet'')"
proof -
  let ?h = "exampleBlock ''javascript'' ''You cannot see me'' [(''evaluate'', FBool True), (''hide'', FBool True)]"
  let ?o = "exampleBlock ''output'' ''I am not supposed to be here!'' []"
  have i: "items (newSnippets [?h, ?o]) = [?h, ?o]" by (simp add: newSnippets_def)
  have e: "isExecutable ?h" by (simp add: isExecutable_def exampleBlock_def)
  have f: "flags ?h ''hide'' = Some (FBool True)" by (simp add: exampleBlock_def)
  have l: "lang ?o = ''output''" by (simp add: exampleBlock_def)
  from getTests_hidden_block [OF i e f l] i e f l show ?thesis
    by (simp add: hiddenCodeBlock_def)
qed

subsection \<open>Extraction: the block of a fence\<close>

lemma documentSource_Cons: "documentSource (x # xs) = pieceSource x @ documentSource xs"
  by (simp add: documentSource_def)

lemma documentSource_append: "documentSource (xs @ ys) = documentSource xs @ documentSource ys"
  by (simp add: documentSource_def)

lemma scan_append:
  "scan m off pend (xs @ ys) =
     scan m off pend xs @ scan m (off + length (documentSource xs)) (pendingAfter off pend xs) ys"
proof (induction xs arbitrary: off pend)
  case Nil
  show ?case by (simp add: documentSource_def)
next
  case (Cons x xs)
  show ?case
    by (cases x) (simp_all add: Cons.IH documentSource_Cons add.assoc)
qed

lemma pendingAfter_append:
  "pendingAfter off pend (xs @ ys) =
     pendingAfter (off + length (documentSource xs)) (pendingAfter off pend xs) ys"
proof (induction xs arbitrary: off pend)
  case Nil
  show ?case by (simp add: documentSource_def)
next
  case (Cons x xs)
  show ?case
    by (cases x) (simp_all add: Cons.IH documentSource_Cons add.assoc)
qed

lemma block_of_fence:
  "extractSnippets m (pre @ Fence tag body # post) ! length (extractSnippets m pre) =
     snippetOf m (pendingAfter 0 None pre) (length (documentSource pre)) tag body"
  by (simp add: extractSnippets_def scan_append [of m 0 None pre])

lemma blocks_before_comment:
  "extractSnippets m (pre @ [Comment c, Prose ws]) = extractSnippets m pre"
  by (simp add: extractSnippets_def scan_append [of m 0 None pre])

lemma pending_comment:
  "isBlank ws \<Longrightarrow> pendingAfter 0 None (pre @ [Comment c, Prose ws]) = Some (length (documentSource pre), c)"
  by (simp add: pendingAfter_append [of 0 None pre])

lemma block_after_comment:
  assumes "isBlank ws"
  shows "extractSnippets m (pre @ [Comment c, Prose ws, Fence tag body] @ post) ! length (extractSnippets m pre) =
     snippetOf m (Some (length (documentSource pre), c)) (length (documentSource (pre @ [Comment c, Prose ws]))) tag body"
proof -
  have "extractSnippets m ((pre @ [Comment c, Prose ws]) @ Fence tag body # post)
          ! length (extractSnippets m (pre @ [Comment c, Prose ws])) =
        snippetOf m (pendingAfter 0 None (pre @ [Comment c, Prose ws]))
          (length (documentSource (pre @ [Comment c, Prose ws]))) tag body"
    by (rule block_of_fence)
  then show ?thesis
    by (simp add: blocks_before_comment pending_comment [OF assms])
qed

lemma index_snippetOf_none: "index (snippetOf m None off tag body) = off"
  by (simp add: snippetOf_def)

lemma index_snippetOf_comment:
  "index (snippetOf m (Some (coff, c)) off tag body) =
     (if directiveOf m c = None then off else coff)"
  by (simp add: snippetOf_def split: option.split)

lemma starts_at: "length p = n \<Longrightarrow> take n (drop (length xs) (xs @ p @ rest)) = p"
  by simp

lemma fence_starts_at:
  "take 3 (drop (length (documentSource xs)) (documentSource (xs @ Fence tag body # post))) = fenceMark"
proof -
  have "documentSource (xs @ Fence tag body # post) =
      documentSource xs @ fenceMark @ (tag @ [CHR 0x0A] @ body @ [CHR 0x0A] @ fenceMark @ documentSource post)"
    by (simp add: documentSource_append documentSource_Cons)
  moreover have "length fenceMark = 3" by (simp add: fenceMark_def)
  ultimately show ?thesis by (simp only: starts_at)
qed

subsection \<open>C6: the recorded index\<close>

text \<open>
  C6. For a fence with a directive comment immediately before it (only whitespace in
  between), the block's index is the character offset of the comment in the document's
  text, where the text reads \<open><!--\<close>. Otherwise, that is when the comment before the
  fence is not a directive comment (it does not carry the configured marker) or when no
  comment stands immediately before the fence, the index is the character offset of the
  fence's opening marker, where the text reads the three backticks.
\<close>

theorem block_index:
  "(isBlank ws \<and> directiveOf m c \<noteq> None \<longrightarrow>
      index (extractSnippets m (pre @ [Comment c, Prose ws, Fence tag body] @ post)
               ! length (extractSnippets m pre))
        = length (documentSource pre)
      \<and> take 4 (drop (length (documentSource pre))
                  (documentSource (pre @ [Comment c, Prose ws, Fence tag body] @ post))) = ''<!--'')
   \<and> (isBlank ws \<and> directiveOf m c = None \<longrightarrow>
      index (extractSnippets m (pre @ [Comment c, Prose ws, Fence tag body] @ post)
               ! length (extractSnippets m pre))
        = length (documentSource (pre @ [Comment c, Prose ws]))
      \<and> take 3 (drop (length (documentSource (pre @ [Comment c, Prose ws])))
                  (documentSource (pre @ [Comment c, Prose ws, Fence tag body] @ post))) = fenceMark)
   \<and> (pendingAfter 0 None pre = None \<longrightarrow>
        index (extractSnippets m (pre @ Fence tag body # post) ! length (extractSnippets m pre))
          = length (documentSource pre)
        \<and> take 3 (drop (length (documentSource pre)) (documentSource (pre @ Fence tag body # post))) = fenceMark)"
proof (intro conjI impI)
  assume a: "isBlank ws \<and> directiveOf m c \<noteq> None"
  then have b: "isBlank ws" and d: "directiveOf m c \<noteq> None" by simp_all
  show "index (extractSnippets m (pre @ [Comment c, Prose ws, Fence tag body] @ post)
               ! length (extractSnippets m pre))
        = length (documentSource pre)"
    unfolding block_after_comment [OF b] index_snippetOf_comment using d by auto
  show "take 4 (drop (length (documentSource pre))
                  (documentSource (pre @ [Comment c, Prose ws, Fence tag body] @ post))) = ''<!--''"
    by (simp add: documentSource_append documentSource_Cons)
next
  assume a: "isBlank ws \<and> directiveOf m c = None"
  then have b: "isBlank ws" and d: "directiveOf m c = None" by simp_all
  show "index (extractSnippets m (pre @ [Comment c, Prose ws, Fence tag body] @ post)
               ! length (extractSnippets m pre))
        = length (documentSource (pre @ [Comment c, Prose ws]))"
    unfolding block_after_comment [OF b] index_snippetOf_comment using d by auto
  show "take 3 (drop (length (documentSource (pre @ [Comment c, Prose ws])))
                  (documentSource (pre @ [Comment c, Prose ws, Fence tag body] @ post))) = fenceMark"
    using fence_starts_at [of "pre @ [Comment c, Prose ws]" tag body post] by simp
next
  assume p: "pendingAfter 0 None pre = None"
  show "index (extractSnippets m (pre @ Fence tag body # post) ! length (extractSnippets m pre))
          = length (documentSource pre)"
    by (simp only: block_of_fence p index_snippetOf_none)
  show "take 3 (drop (length (documentSource pre)) (documentSource (pre @ Fence tag body # post))) = fenceMark"
    by (rule fence_starts_at)
qed

theorem block_index_witness:
  "isBlank [CHR 0x0A]
   \<and> directiveOf (Some ''evaldown'') '' evaldown cleanStackTrace:true '' \<noteq> None
   \<and> index (extractSnippets (Some ''evaldown'') fromMarkdownDoc ! 1) = 148
   \<and> directiveOf (Some ''evaldown'') '' foo: bar '' = None
   \<and> index (extractSnippets (Some ''evaldown'') skipsPastCommentDoc ! 0) = 25
   \<and> pendingAfter 0 None [Prose (''Asserts deep equality.'' @ [CHR 0x0A, CHR 0x0A])] = None
   \<and> index (extractSnippets (Some ''evaldown'') fromMarkdownDoc ! 0) = 24"
proof -
  let ?p = "Prose (''Asserts deep equality.'' @ [CHR 0x0A, CHR 0x0A])"
  let ?jb = "''throw new Error('' @ [CHR 0x22] @ ''foo'' @ [CHR 0x5C] @ ''n  at bar (/somewhere.js:1:2)''
          @ [CHR 0x5C] @ ''n  at quux (/blah.js:3:4)'' @ [CHR 0x5C] @ ''n  at baz (/yadda.js:5:6)''
          @ [CHR 0x22] @ '')''"
  let ?f = "Fence ''javascript'' ?jb"
  let ?c = "'' evaldown cleanStackTrace:true ''"
  let ?body = "''foo'' @ [CHR 0x0A] @ ''  at bar (/path/to/file.js:x:y)'' @ [CHR 0x0A]
          @ ''  at quux (/path/to/file.js:x:y)''"
  let ?q = "Prose (''foobar'' @ [CHR 0x0A])"
  let ?alert = "''alert('' @ [CHR 0x22] @ ''Hello!'' @ [CHR 0x22] @ '');''"
  let ?m = "Some ''evaldown''"
  have b: "isBlank [CHR 0x0A]" by (simp add: isBlank_def isSpace_def)
  have d: "fromMarkdownDoc = [?p, ?f, Prose [CHR 0x0A, CHR 0x0A]] @ [Comment ?c, Prose [CHR 0x0A], Fence ''output'' ?body] @ []"
    by (simp add: fromMarkdownDoc_def)
  have d0: "fromMarkdownDoc = [?p] @ Fence ''javascript'' ?jb # [Prose [CHR 0x0A, CHR 0x0A], Comment ?c, Prose [CHR 0x0A], Fence ''output'' ?body]"
    by (simp add: fromMarkdownDoc_def)
  have ds: "skipsPastCommentDoc = [?q] @ [Comment '' foo: bar '', Prose [CHR 0x0A], Fence ''js#foo:false'' ?alert] @ [Prose [CHR 0x0A]]"
    by (simp add: skipsPastCommentDoc_def)
  have k: "length (extractSnippets ?m [?p, ?f, Prose [CHR 0x0A, CHR 0x0A]]) = 1"
    by (simp add: extractSnippets_def)
  have k0: "length (extractSnippets ?m [?p]) = 0"
    by (simp add: extractSnippets_def)
  have ks: "length (extractSnippets ?m [?q]) = 0"
    by (simp add: extractSnippets_def)
  have dir: "directiveOf ?m ?c \<noteq> None"
    by (simp add: directiveOf_def trim_def isSpace_def Let_def)
  have nodir: "directiveOf ?m '' foo: bar '' = None"
    by (simp add: directiveOf_def trim_def isSpace_def Let_def)
  have n: "pendingAfter 0 None [?p] = None" by (simp add: isBlank_def isSpace_def)
  have l1: "length (documentSource [?p, ?f, Prose [CHR 0x0A, CHR 0x0A]]) = 148"
    by (simp add: documentSource_def fenceMark_def)
  have l0: "length (documentSource [?p]) = 24"
    by (simp add: documentSource_def)
  have ls: "length (documentSource ([?q] @ [Comment '' foo: bar '', Prose [CHR 0x0A]])) = 25"
    by (simp add: documentSource_def)
  note t1 = block_index [of "[CHR 0x0A]" ?m ?c "[?p, ?f, Prose [CHR 0x0A, CHR 0x0A]]" "''output''" ?body "[]"]
  note t0 = block_index [of "[CHR 0x0A]" ?m ?c "[?p]" "''javascript''" ?jb
      "[Prose [CHR 0x0A, CHR 0x0A], Comment ?c, Prose [CHR 0x0A], Fence ''output'' ?body]"]
  note ts = block_index [of "[CHR 0x0A]" ?m "'' foo: bar ''" "[?q]" "''js#foo:false''" ?alert "[Prose [CHR 0x0A]]"]
  from t1 b dir
  have "index (extractSnippets ?m ([?p, ?f, Prose [CHR 0x0A, CHR 0x0A]] @ [Comment ?c, Prose [CHR 0x0A], Fence ''output'' ?body] @ [])
                 ! length (extractSnippets ?m [?p, ?f, Prose [CHR 0x0A, CHR 0x0A]]))
          = length (documentSource [?p, ?f, Prose [CHR 0x0A, CHR 0x0A]])"
    by blast
  then have "index (extractSnippets ?m fromMarkdownDoc ! 1) = 148"
    by (simp only: d [symmetric] k l1)
  moreover from ts b nodir
  have "index (extractSnippets ?m ([?q] @ [Comment '' foo: bar '', Prose [CHR 0x0A], Fence ''js#foo:false'' ?alert] @ [Prose [CHR 0x0A]])
                 ! length (extractSnippets ?m [?q]))
          = length (documentSource ([?q] @ [Comment '' foo: bar '', Prose [CHR 0x0A]]))"
    by blast
  then have "index (extractSnippets ?m skipsPastCommentDoc ! 0) = 25"
    by (simp only: ds [symmetric] ks ls)
  moreover from t0 n
  have "index (extractSnippets ?m ([?p] @ Fence ''javascript'' ?jb # [Prose [CHR 0x0A, CHR 0x0A], Comment ?c, Prose [CHR 0x0A], Fence ''output'' ?body])
                 ! length (extractSnippets ?m [?p]))
          = length (documentSource [?p])"
    by blast
  then have "index (extractSnippets ?m fromMarkdownDoc ! 0) = 24"
    by (simp only: d0 [symmetric] k0 l0)
  ultimately show ?thesis using b n dir nodir by blast
qed

subsection \<open>C1: flags from the comment and from the fence suffix\<close>














end
